theory Spec2Isabelle
  imports Complex_Main
begin

section \<open>Data: values, host arrays, errors, the world\<close>

text \<open>
  The repository is a MATLAB MEX bridge: \<^verbatim>\<open>myClass.hpp\<close> is a complex number with two
  \<^verbatim>\<open>double\<close> members, \<^verbatim>\<open>myFavDouble_mex.cpp\<close> is the gateway \<^verbatim>\<open>mexFunction\<close> that reads a
  command string and operates on objects named by integer identifiers.

  A \<^verbatim>\<open>double\<close> is idealised as a real number. Every statement below only copies
  members, adds two of them once, or compares one with zero, so rounding, infinities and
  NaN play no part in what is proved.
\<close>

type_synonym double = real

record myClass =
  valueR :: double
  valueI :: double

type_synonym addr = nat
type_synonym handle = nat

text \<open>
  What the host passes in \<^verbatim>\<open>prhs\<close> and receives in \<^verbatim>\<open>plhs\<close>: a character array, the
  real uint64 scalar that carries an object identifier, a uint8 scalar (the answer of
  \<^verbatim>\<open>isValid\<close>), a double array with its dimensions, its real data in column-major order
  and its imaginary data (absent for a real array, where \<^verbatim>\<open>mxGetPi\<close> is \<^verbatim>\<open>NULL\<close>), or an
  array of any other class.
\<close>

datatype mxArray =
    MxChar string
  | MxUint64 handle
  | MxUint8 nat
  | MxDouble "nat list" "double list" "double list option"
  | MxOther

text \<open>
  \<^verbatim>\<open>mexErrMsgTxt\<close> and \<^verbatim>\<open>mexErrMsgIdAndTxt\<close> do not return: they leave the MEX function
  with the message (and identifier) given, keeping whatever was allocated before.
  \<open>InvalidHandle\<close> is the failure of the handle functions of \<^verbatim>\<open>class_handle.hpp\<close>.
  \<open>PrhsOutOfBounds\<close> marks the one place where the gateway reads \<^verbatim>\<open>prhs[2]\<close> without
  having checked that \<^verbatim>\<open>nrhs\<close> is at least 3; C++ gives that read no meaning, and the
  model stops there.
\<close>

datatype error =
    MexErrMsgTxt string
  | MexErrMsgIdAndTxt string string
  | InvalidHandle
  | PrhsOutOfBounds

text \<open>The two formats of \<^verbatim>\<open>myClass::display\<close>: \<^verbatim>\<open>"%f\n"\<close> and \<^verbatim>\<open>"%f + %fi\n"\<close>.\<close>

datatype printed = PrintfReal double | PrintfComplex double double

text \<open>
  The state that survives between two calls of the gateway: the native heap of
  \<^verbatim>\<open>myClass\<close> objects (\<open>heap\<close> gives the members at every address, \<open>brk\<close> is the next
  address \<^verbatim>\<open>operator new\<close> hands out), the table of registered identifiers with the
  counter that mints them, and what \<^verbatim>\<open>mexPrintf\<close> has written.
\<close>

record world =
  heap :: "addr \<Rightarrow> myClass"
  brk :: addr
  entries :: "(handle \<times> addr) list"
  next_id :: handle
  console :: "printed list"

definition world0 :: world where
  "world0 = \<lparr>heap = (\<lambda>_. \<lparr>valueR = 0, valueI = 0\<rparr>), brk = 0, entries = [],
     next_id = 0, console = []\<rparr>"

section \<open>The host's array interface (mex.h)\<close>

text \<open>
  \<^verbatim>\<open>mxGetString(a, buf, buflen)\<close> returns 0 and fills \<^verbatim>\<open>buf\<close> when \<^verbatim>\<open>a\<close> is a character
  array of at most \<^verbatim>\<open>buflen - 1\<close> characters, and 1 otherwise. \<open>None\<close> is the
  non-zero status.
\<close>

fun mxGetString :: "mxArray \<Rightarrow> nat \<Rightarrow> string option" where
  "mxGetString (MxChar s) buflen = (if length s < buflen then Some s else None)"
| "mxGetString _ buflen = None"

text \<open>
  The buffer that \<^verbatim>\<open>mxGetString\<close> fills is a C string: what the C library reads of it
  ends before its first NUL character. \<^verbatim>\<open>strcmp\<close> compares two C strings character by
  character, as unsigned bytes, and returns 0 exactly when they agree up to their
  terminators.
\<close>

definition c_str :: "string \<Rightarrow> string" where
  "c_str s = takeWhile (\<lambda>c. c \<noteq> CHR 0x00) s"

fun strcmp_chars :: "string \<Rightarrow> string \<Rightarrow> int" where
  "strcmp_chars [] [] = 0"
| "strcmp_chars [] (y # ys) = - of_char y"
| "strcmp_chars (x # xs) [] = of_char x"
| "strcmp_chars (x # xs) (y # ys) =
     (if x = y then strcmp_chars xs ys else of_char x - of_char y)"

definition strcmp :: "string \<Rightarrow> string \<Rightarrow> int" where
  "strcmp s1 s2 = strcmp_chars (c_str s1) (c_str s2)"

fun mxIsDouble :: "mxArray \<Rightarrow> bool" where
  "mxIsDouble (MxDouble ds re im) = True"
| "mxIsDouble _ = False"

text \<open>Strings and scalars are two-dimensional arrays for MATLAB.\<close>

fun mxGetNumberOfDimensions :: "mxArray \<Rightarrow> nat" where
  "mxGetNumberOfDimensions (MxDouble ds re im) = length ds"
| "mxGetNumberOfDimensions _ = 2"

text \<open>\<^verbatim>\<open>mxGetM\<close> is the first dimension, \<^verbatim>\<open>mxGetN\<close> the product of the others.\<close>

fun mxGetM :: "mxArray \<Rightarrow> nat" where
  "mxGetM (MxDouble ds re im) = (case ds of [] \<Rightarrow> 0 | m # ns \<Rightarrow> m)"
| "mxGetM (MxChar s) = 1"
| "mxGetM _ = 1"

fun mxGetN :: "mxArray \<Rightarrow> nat" where
  "mxGetN (MxDouble ds re im) = (case ds of [] \<Rightarrow> 0 | m # ns \<Rightarrow> prod_list ns)"
| "mxGetN (MxChar s) = length s"
| "mxGetN _ = 1"

fun mxGetPr :: "mxArray \<Rightarrow> double list" where
  "mxGetPr (MxDouble ds re im) = re"
| "mxGetPr _ = []"

fun mxGetPi :: "mxArray \<Rightarrow> double list option" where
  "mxGetPi (MxDouble ds re im) = im"
| "mxGetPi _ = None"

text \<open>
  \<^verbatim>\<open>mxCreateNumericMatrix(m, n, mxDOUBLE_CLASS, flag)\<close>: an m-by-n double array filled with
  zeros, with imaginary data when the flag is \<^verbatim>\<open>mxCOMPLEX\<close>.
\<close>

definition mxCreateDoubleMatrix :: "nat \<Rightarrow> nat \<Rightarrow> bool \<Rightarrow> mxArray" where
  "mxCreateDoubleMatrix m n cplx =
     MxDouble [m, n] (replicate (m * n) 0)
       (if cplx then Some (replicate (m * n) 0) else None)"

section \<open>myClass.hpp\<close>

text \<open>
  \<^verbatim>\<open>operator new\<close>: storage for one object at the next address; no address is handed
  out twice.
\<close>

definition operator_new :: "world \<Rightarrow> addr \<times> world" where
  "operator_new w = (brk w, w\<lparr>brk := Suc (brk w)\<rparr>)"

definition set_valueR :: "world \<Rightarrow> addr \<Rightarrow> double \<Rightarrow> world" where
  "set_valueR w p x = w\<lparr>heap := (heap w)(p := (heap w p)\<lparr>valueR := x\<rparr>)\<rparr>"

definition set_valueI :: "world \<Rightarrow> addr \<Rightarrow> double \<Rightarrow> world" where
  "set_valueI w p x = w\<lparr>heap := (heap w)(p := (heap w p)\<lparr>valueI := x\<rparr>)\<rparr>"

text \<open>\<^verbatim>\<open>myClass() : valueR(0.0), valueI(0.0)\<close>, run on the storage at \<open>this\<close>.\<close>

definition myClass_ctor :: "world \<Rightarrow> addr \<Rightarrow> world" where
  "myClass_ctor w this = set_valueI (set_valueR w this 0) this 0"

text \<open>\<^verbatim>\<open>myClass(const myClass& a) : valueR(a.valueR), valueI(a.valueI)\<close>.\<close>

definition myClass_copy_ctor :: "world \<Rightarrow> addr \<Rightarrow> addr \<Rightarrow> world" where
  "myClass_copy_ctor w this a =
     (let w1 = set_valueR w this (valueR (heap w a))
      in set_valueI w1 this (valueI (heap w1 a)))"

text \<open>\<^verbatim>\<open>new myClass\<close> and \<^verbatim>\<open>new myClass(a)\<close>.\<close>

definition new_myClass :: "world \<Rightarrow> addr \<times> world" where
  "new_myClass w = (let (p, w1) = operator_new w in (p, myClass_ctor w1 p))"

definition new_myClass_copy :: "world \<Rightarrow> addr \<Rightarrow> addr \<times> world" where
  "new_myClass_copy w a = (let (p, w1) = operator_new w in (p, myClass_copy_ctor w1 p a))"

text \<open>
  \<^verbatim>\<open>myClass(const mxArray* prhs)\<close>. One pass of the inner loop body reads item \<open>k\<close> of
  the real data and, for a complex array, of the imaginary data. The two loops run over
  the \<open>n\<close> columns and the \<open>m\<close> rows; the data pointers advance by \<open>m\<close> after each
  column. The members are not initialised before the loops: they hold what the storage
  held. The size check comes after \<^verbatim>\<open>valueI\<close> was cleared for a real array.
\<close>

definition mx_copy_item ::
  "world \<Rightarrow> addr \<Rightarrow> double list \<Rightarrow> double list option \<Rightarrow> nat \<Rightarrow> world" where
  "mx_copy_item w this pR pI k =
     (let w1 = set_valueR w this (pR ! k)
      in case pI of None \<Rightarrow> w1 | Some im \<Rightarrow> set_valueI w1 this (im ! k))"

definition mx_copy_loops ::
  "world \<Rightarrow> addr \<Rightarrow> nat \<Rightarrow> nat \<Rightarrow> double list \<Rightarrow> double list option \<Rightarrow> world" where
  "mx_copy_loops w this m n pR pI =
     fst (fold (\<lambda>j (wj, off).
                  (fold (\<lambda>i wi. mx_copy_item wi this pR pI (off + i)) [0..<m] wj, off + m))
               [0..<n] (w, 0))"

definition myClass_mx_ctor :: "world \<Rightarrow> addr \<Rightarrow> mxArray \<Rightarrow> error option \<times> world" where
  "myClass_mx_ctor w this prhs =
     (let m = mxGetM prhs;
          n = mxGetN prhs;
          pR = mxGetPr prhs;
          pI = mxGetPi prhs;
          cplx = (pI \<noteq> None);
          w1 = (if \<not> cplx then set_valueI w this 0 else w)
      in if m \<noteq> 1 \<or> n \<noteq> 1
         then (Some (MexErrMsgIdAndTxt ''myClass:invalidSize'' ''Size [1 1] expected.''), w1)
         else (None, mx_copy_loops w1 this m n pR pI))"

text \<open>
  \<^verbatim>\<open>new myClass(prhs)\<close>: the storage is taken first; when the constructor leaves through
  \<^verbatim>\<open>mexErrMsgIdAndTxt\<close> nobody gives it back.
\<close>

definition new_myClass_mx :: "world \<Rightarrow> mxArray \<Rightarrow> (error + addr) \<times> world" where
  "new_myClass_mx w prhs =
     (let (p, w1) = operator_new w
      in case myClass_mx_ctor w1 p prhs of
           (Some e, w2) \<Rightarrow> (Inl e, w2)
         | (None, w2) \<Rightarrow> (Inr p, w2))"

text \<open>\<^verbatim>\<open>void display()\<close>.\<close>

definition display :: "world \<Rightarrow> addr \<Rightarrow> world" where
  "display w this =
     (if valueI (heap w this) = 0
      then w\<lparr>console := console w @ [PrintfReal (valueR (heap w this))]\<rparr>
      else w\<lparr>console := console w
              @ [PrintfComplex (valueR (heap w this)) (valueI (heap w this))]\<rparr>)"

text \<open>
  \<^verbatim>\<open>mxArray* toDouble()\<close>: a 1-by-1 array, complex exactly when \<^verbatim>\<open>valueI\<close> is not zero,
  filled by the same two loops, here writing.
\<close>

definition mx_write_item ::
  "double \<Rightarrow> double \<Rightarrow> bool \<Rightarrow> double list \<times> double list option \<Rightarrow> nat
    \<Rightarrow> double list \<times> double list option" where
  "mx_write_item vR vI cplx buf k =
     (let pointerR = (fst buf)[k := vR]
      in if cplx then (pointerR, map_option (\<lambda>im. im[k := vI]) (snd buf))
         else (pointerR, snd buf))"

definition mx_write_loops ::
  "double \<Rightarrow> double \<Rightarrow> bool \<Rightarrow> nat \<Rightarrow> nat \<Rightarrow> double list \<times> double list option
    \<Rightarrow> double list \<times> double list option" where
  "mx_write_loops vR vI cplx m n buf =
     fst (fold (\<lambda>j (bj, off).
                  (fold (\<lambda>i bi. mx_write_item vR vI cplx bi (off + i)) [0..<m] bj, off + m))
               [0..<n] (buf, 0))"

definition toDouble :: "world \<Rightarrow> addr \<Rightarrow> mxArray" where
  "toDouble w this =
     (let m = 1;
          n = 1;
          cplx = (valueI (heap w this) \<noteq> 0);
          plhs = mxCreateDoubleMatrix 1 1 cplx;
          buf = mx_write_loops (valueR (heap w this)) (valueI (heap w this)) cplx m n
                  (mxGetPr plhs, mxGetPi plhs)
      in MxDouble [1, 1] (fst buf) (snd buf))"

text \<open>\<^verbatim>\<open>myClass& operator+=(const myClass& b)\<close>: changes \<^verbatim>\<open>*this\<close> and returns it.\<close>

definition operator_plus_assign :: "world \<Rightarrow> addr \<Rightarrow> addr \<Rightarrow> addr \<times> world" where
  "operator_plus_assign w this b =
     (let w1 = set_valueR w this (valueR (heap w this) + valueR (heap w b));
          w2 = set_valueI w1 this (valueI (heap w1 this) + valueI (heap w1 b))
      in (this, w2))"

text \<open>
  \<^verbatim>\<open>myClass operator+(const myClass& b)\<close>: the result is a local object returned by
  value, so it is a value here and the world is not part of the result.
\<close>

definition operator_plus :: "world \<Rightarrow> addr \<Rightarrow> addr \<Rightarrow> myClass" where
  "operator_plus w this b =
     (let result0 = \<lparr>valueR = 0, valueI = 0\<rparr>;
          result1 = result0\<lparr>valueR := valueR (heap w this) + valueR (heap w b)\<rparr>;
          result2 = result1\<lparr>valueI := valueI (heap w this) + valueI (heap w b)\<rparr>
      in result2)"

text \<open>\<^verbatim>\<open>myClass& plus_new(const myClass& b)\<close>: the sum in an object made with \<^verbatim>\<open>new\<close>.\<close>

definition plus_new :: "world \<Rightarrow> addr \<Rightarrow> addr \<Rightarrow> addr \<times> world" where
  "plus_new w this b =
     (let (result, w1) = new_myClass w;
          w2 = set_valueR w1 result (valueR (heap w1 this) + valueR (heap w1 b));
          w3 = set_valueI w2 result (valueI (heap w2 this) + valueI (heap w2 b))
      in (result, w3))"

text \<open>\<^verbatim>\<open>myClass* plus_new_ptr(const myClass& b)\<close>: \<^verbatim>\<open>return &(this->plus_new(b));\<close>\<close>

definition plus_new_ptr :: "world \<Rightarrow> addr \<Rightarrow> addr \<Rightarrow> addr \<times> world" where
  "plus_new_ptr w this b = plus_new w this b"

section \<open>The handle functions (class_handle.hpp)\<close>

text \<open>
  \<^verbatim>\<open>class_handle.hpp\<close> is included by the gateway, but only the calls of its functions
  are at hand, not their text. The five functions follow the registry of the specification
  (register, resolve, release, isValid): an internal table from a counted identifier to
  the owned instance, the identifier handed to the host as a real uint64 scalar.
\<close>

text \<open>
  Modelled from the spec: \<^verbatim>\<open>createMatlabIdFromObj\<close> is missing. The spec's \<open>register\<close>
  takes ownership of a newly constructed instance, stores it under a freshly minted
  handle and returns the handle; the identifier is monotonically increasing.
\<close>

definition createMatlabIdFromObj :: "world \<Rightarrow> addr \<Rightarrow> mxArray \<times> world" where
  "createMatlabIdFromObj w obj =
     (MxUint64 (next_id w),
      w\<lparr>entries := (next_id w, obj) # entries w, next_id := Suc (next_id w)\<rparr>)"

text \<open>
  Modelled from the spec: \<^verbatim>\<open>createMatlabIdFromPtr\<close> is missing; it is \<open>register\<close> again,
  for a pointer instead of a reference.
\<close>

definition createMatlabIdFromPtr :: "world \<Rightarrow> addr \<Rightarrow> mxArray \<times> world" where
  "createMatlabIdFromPtr w ptr = createMatlabIdFromObj w ptr"

text \<open>
  Modelled from the spec: \<^verbatim>\<open>recoverObjFromMatlabId\<close> is missing. The spec's \<open>resolve\<close>
  returns a reference to the instance if the handle is currently registered and fails
  with \<open>InvalidHandle\<close> otherwise (unknown, forged or already released).
\<close>

definition recoverObjFromMatlabId :: "world \<Rightarrow> mxArray \<Rightarrow> error + addr" where
  "recoverObjFromMatlabId w a =
     (case a of
        MxUint64 h \<Rightarrow>
          (case map_of (entries w) h of Some obj \<Rightarrow> Inr obj | None \<Rightarrow> Inl InvalidHandle)
      | _ \<Rightarrow> Inl InvalidHandle)"

text \<open>
  Modelled from the spec: \<^verbatim>\<open>destroyObject\<close> is missing. The spec's \<open>release\<close> removes the
  entry and frees the owned instance exactly once, and fails with \<open>InvalidHandle\<close> if
  the handle is unknown or already released. Freed storage is not handed out again by
  \<open>operator_new\<close>, so freeing leaves the heap as it is.
\<close>

definition destroyObject :: "world \<Rightarrow> mxArray \<Rightarrow> error option \<times> world" where
  "destroyObject w a =
     (case a of
        MxUint64 h \<Rightarrow>
          (case map_of (entries w) h of
             Some obj \<Rightarrow> (None, w\<lparr>entries := filter (\<lambda>e. fst e \<noteq> h) (entries w)\<rparr>)
           | None \<Rightarrow> (Some InvalidHandle, w))
      | _ \<Rightarrow> (Some InvalidHandle, w))"

text \<open>
  Modelled from the spec: \<^verbatim>\<open>checkValidity\<close> is missing. The spec's \<open>isValid\<close> is a
  non-throwing probe that returns false for unknown or released handles. For an
  argument that is not a uint64 scalar at all the spec leaves the choice open; the
  answer here is false.
\<close>

definition checkValidity :: "world \<Rightarrow> mxArray \<Rightarrow> bool" where
  "checkValidity w a =
     (case a of MxUint64 h \<Rightarrow> map_of (entries w) h \<noteq> None | _ \<Rightarrow> False)"

text \<open>The number of registered objects.\<close>

definition registry_size :: "world \<Rightarrow> nat" where
  "registry_size w = length (entries w)"

section \<open>The gateway (myFavDouble_mex.cpp)\<close>

text \<open>
  \<open>mexFunction w nlhs prhs\<close> is one call of the gateway in world \<open>w\<close>, with \<open>nlhs\<close>
  outputs asked for and the inputs \<open>prhs\<close> (\<^verbatim>\<open>nrhs\<close> is their number). It gives the error
  that ended the call or \<^verbatim>\<open>plhs[0]\<close> (\<open>None\<close> when the call set no output), and the world
  the call left behind. Each command is a definition of its own, in the order of the
  source text.
\<close>

type_synonym outcome = "(error + mxArray option) \<times> world"

text \<open>Lines 32 to 60.\<close>

definition cmd_new :: "world \<Rightarrow> nat \<Rightarrow> mxArray list \<Rightarrow> outcome" where
  "cmd_new w nlhs prhs =
     (if nlhs \<noteq> 1 then (Inl (MexErrMsgTxt ''New: One output expected.''), w)
      else if length prhs = 1 then
        (let (obj, w1) = new_myClass w;
             (ident, w2) = createMatlabIdFromObj w1 obj
         in (Inr (Some ident), w2))
      else if length prhs = 2 then
        (case recoverObjFromMatlabId w (prhs ! 1) of
           Inl e \<Rightarrow> (Inl e, w)
         | Inr myClass_instance \<Rightarrow>
             (let (copiedInstance, w1) = new_myClass_copy w myClass_instance;
                  (ident, w2) = createMatlabIdFromObj w1 copiedInstance
              in (Inr (Some ident), w2)))
      else (Inl (MexErrMsgTxt ''New: Too many arguments.''), w))"

text \<open>Lines 63 to 92.\<close>

definition cmd_newFromMatlab :: "world \<Rightarrow> nat \<Rightarrow> mxArray list \<Rightarrow> outcome" where
  "cmd_newFromMatlab w nlhs prhs =
     (if length prhs \<noteq> 2 then
        (Inl (MexErrMsgIdAndTxt ''myClass:invalidNumInputs'' ''One input argument required.''), w)
      else if nlhs > 1 then
        (Inl (MexErrMsgIdAndTxt ''myClass:maxlhs'' ''Too many output arguments.''), w)
      else if \<not> mxIsDouble (prhs ! 1) then
        (Inl (MexErrMsgIdAndTxt ''myClass:inputNotDouble''
                ''Input argument must be of type double.''), w)
      else if mxGetNumberOfDimensions (prhs ! 1) \<noteq> 2 then
        (Inl (MexErrMsgIdAndTxt ''myClass:inputNot2D''
                (''Input argument must be two dimensional'' @ [CHR 0x0A])), w)
      else
        (case new_myClass_mx w (prhs ! 1) of
           (Inl e, w1) \<Rightarrow> (Inl e, w1)
         | (Inr obj, w1) \<Rightarrow>
             (let (ident, w2) = createMatlabIdFromObj w1 obj in (Inr (Some ident), w2))))"

text \<open>Lines 95 to 104.\<close>

definition cmd_delete :: "world \<Rightarrow> nat \<Rightarrow> mxArray list \<Rightarrow> outcome" where
  "cmd_delete w nlhs prhs =
     (if length prhs \<noteq> 2 then (Inl (MexErrMsgTxt ''Delete: Wrong number of arguments.''), w)
      else
        (case destroyObject w (prhs ! 1) of
           (Some e, w1) \<Rightarrow> (Inl e, w1)
         | (None, w1) \<Rightarrow> (Inr None, w1)))"

text \<open>
  Lines 116 to 136. The answer is a uint8 scalar; the source writes it through an
  \<^verbatim>\<open>int*\<close>, whose low byte is the 1 or 0 read back.
\<close>

definition cmd_isValid :: "world \<Rightarrow> nat \<Rightarrow> mxArray list \<Rightarrow> outcome" where
  "cmd_isValid w nlhs prhs =
     (if nlhs < 1 \<or> length prhs > 2 then (Inl (MexErrMsgTxt ''isValid: Unexpected arguments.''), w)
      else
        (let validity = checkValidity w (prhs ! 1)
         in if validity then (Inr (Some (MxUint8 1)), w) else (Inr (Some (MxUint8 0)), w)))"

text \<open>Lines 140 to 143.\<close>

definition cmd_display :: "world \<Rightarrow> addr \<Rightarrow> outcome" where
  "cmd_display w myClass_instance = (Inr None, display w myClass_instance)"

text \<open>Lines 147 to 154.\<close>

definition cmd_double :: "world \<Rightarrow> nat \<Rightarrow> addr \<Rightarrow> outcome" where
  "cmd_double w nlhs myClass_instance =
     (if nlhs \<noteq> 1 then (Inl (MexErrMsgTxt ''double: Unexpected arguments.''), w)
      else (Inr (Some (toDouble w myClass_instance)), w))"

text \<open>
  Lines 163 to 213. The source gives three ways to build the result of \<^verbatim>\<open>plus\<close> and
  selects the first with \<^verbatim>\<open>if (true) ... else if (false) ... else if (false)\<close>; all
  three are kept as written.
\<close>

definition plus_with_plus_new :: "world \<Rightarrow> addr \<Rightarrow> addr \<Rightarrow> outcome" where
  "plus_with_plus_new w myClass_instance myClass_instance2 =
     (let (result, w1) = plus_new w myClass_instance myClass_instance2;
          (ident, w2) = createMatlabIdFromObj w1 result
      in (Inr (Some ident), w2))"

definition plus_with_copy :: "world \<Rightarrow> addr \<Rightarrow> addr \<Rightarrow> outcome" where
  "plus_with_copy w myClass_instance myClass_instance2 =
     (let (result, w1) = new_myClass_copy w myClass_instance;
          (self, w2) = operator_plus_assign w1 result myClass_instance2;
          (ident, w3) = createMatlabIdFromObj w2 result
      in (Inr (Some ident), w3))"

definition plus_with_plus_new_ptr :: "world \<Rightarrow> addr \<Rightarrow> addr \<Rightarrow> outcome" where
  "plus_with_plus_new_ptr w myClass_instance myClass_instance2 =
     (let (result, w1) = plus_new_ptr w myClass_instance myClass_instance2;
          (ident, w2) = createMatlabIdFromPtr w1 result
      in (Inr (Some ident), w2))"

definition cmd_plus :: "world \<Rightarrow> nat \<Rightarrow> mxArray list \<Rightarrow> addr \<Rightarrow> addr \<Rightarrow> outcome" where
  "cmd_plus w nlhs prhs myClass_instance myClass_instance2 =
     (if nlhs < 1 \<or> length prhs < 2 then (Inl (MexErrMsgTxt ''plus: Unexpected arguments.''), w)
      else if True then plus_with_plus_new w myClass_instance myClass_instance2
      else if False then plus_with_copy w myClass_instance myClass_instance2
      else if False then plus_with_plus_new_ptr w myClass_instance myClass_instance2
      else (Inr None, w))"

text \<open>
  Lines 157 to 216: the second instance is recovered from \<^verbatim>\<open>prhs[2]\<close> before the command
  is compared with \<^verbatim>\<open>"plus"\<close>, and with fewer than three inputs that read is out of
  bounds.
\<close>

definition two_instances :: "world \<Rightarrow> nat \<Rightarrow> mxArray list \<Rightarrow> string \<Rightarrow> addr \<Rightarrow> outcome" where
  "two_instances w nlhs prhs cmd myClass_instance =
     (if length prhs < 3 then (Inl PrhsOutOfBounds, w)
      else
        (case recoverObjFromMatlabId w (prhs ! 2) of
           Inl e \<Rightarrow> (Inl e, w)
         | Inr myClass_instance2 \<Rightarrow>
             if strcmp ''plus'' cmd = 0 then cmd_plus w nlhs prhs myClass_instance myClass_instance2
             else (Inl (MexErrMsgTxt ''Command not recognized.''), w)))"

text \<open>
  Lines 106 to 154: every command but \<^verbatim>\<open>new\<close>, \<^verbatim>\<open>newFromMatlab\<close> and \<^verbatim>\<open>delete\<close> needs a
  second input, and the instance it names is recovered before the command is looked at.
\<close>

definition one_instance :: "world \<Rightarrow> nat \<Rightarrow> mxArray list \<Rightarrow> string \<Rightarrow> outcome" where
  "one_instance w nlhs prhs cmd =
     (if length prhs < 2 then (Inl (MexErrMsgTxt ''Second input not found.''), w)
      else
        (case recoverObjFromMatlabId w (prhs ! 1) of
           Inl e \<Rightarrow> (Inl e, w)
         | Inr myClass_instance \<Rightarrow>
             if strcmp ''isValid'' cmd = 0 then cmd_isValid w nlhs prhs
             else if strcmp ''display'' cmd = 0 then cmd_display w myClass_instance
             else if strcmp ''double'' cmd = 0 then cmd_double w nlhs myClass_instance
             else two_instances w nlhs prhs cmd myClass_instance))"

text \<open>Lines 24 to 29, and the chain of \<^verbatim>\<open>strcmp\<close> tests.\<close>

definition mexFunction :: "world \<Rightarrow> nat \<Rightarrow> mxArray list \<Rightarrow> outcome" where
  "mexFunction w nlhs prhs =
     (if length prhs < 1 then
        (Inl (MexErrMsgTxt
           ''First input should be a command string less than 64 characters long.''), w)
      else
        (case mxGetString (prhs ! 0) 64 of
           None \<Rightarrow>
             (Inl (MexErrMsgTxt
                ''First input should be a command string less than 64 characters long.''), w)
         | Some cmd \<Rightarrow>
             if strcmp ''new'' cmd = 0 then cmd_new w nlhs prhs
             else if strcmp ''newFromMatlab'' cmd = 0 then cmd_newFromMatlab w nlhs prhs
             else if strcmp ''delete'' cmd = 0 then cmd_delete w nlhs prhs
             else one_instance w nlhs prhs cmd))"

text \<open>The verbs the gateway compares the command with.\<close>

definition verbs :: "string list" where
  "verbs = [''new'', ''newFromMatlab'', ''delete'', ''isValid'', ''display'', ''double'', ''plus'']"

text \<open>
  What every sequence of calls keeps true of the world: registered identifiers were
  minted by the counter, registered objects were handed out by \<open>operator_new\<close>, and no
  identifier is registered twice.
\<close>

definition world_ok :: "world \<Rightarrow> bool" where
  "world_ok w =
     (list_all (\<lambda>e. fst e < next_id w \<and> snd e < brk w) (entries w)
      \<and> distinct (map fst (entries w)))"

text \<open>A session: the calls of the host one after the other, errors included.\<close>

fun session :: "world \<Rightarrow> (nat \<times> mxArray list) list \<Rightarrow> world" where
  "session w [] = w"
| "session w (c # cs) = session (snd (mexFunction w (fst c) (snd c))) cs"

text \<open>
  Worlds for concrete runs: after \<^verbatim>\<open>new\<close> (identifier 0 names 0+0i), after
  \<^verbatim>\<open>newFromMatlab\<close> of the complex scalar 5+2i as well (identifier 1), and the first of
  them after identifier 0 was deleted again.
\<close>

definition world_A :: world where
  "world_A = snd (mexFunction world0 1 [MxChar ''new''])"

definition world_AB :: world where
  "world_AB = snd (mexFunction world_A 1 [MxChar ''newFromMatlab'', MxDouble [1, 1] [5] (Some [2])])"

definition world_deleted :: world where
  "world_deleted = snd (mexFunction world_A 0 [MxChar ''delete'', MxUint64 0])"

text \<open>
  The scenario of the specification goes on from the second world with \<^verbatim>\<open>plus\<close> of the
  identifiers 0 and 1, and then deletes identifier 0.
\<close>

definition world_ABC :: world where
  "world_ABC = snd (mexFunction world_AB 1 [MxChar ''plus'', MxUint64 0, MxUint64 1])"

definition world_BC :: world where
  "world_BC = snd (mexFunction world_ABC 0 [MxChar ''delete'', MxUint64 0])"

text \<open>
  What one call can do to the registry and the allocator: leave the registry alone (the
  allocator may still have advanced), register the object just allocated under the next
  identifier, or drop the entries of one identifier.
\<close>

definition step_kind :: "world \<Rightarrow> world \<Rightarrow> bool" where
  "step_kind w w' =
     ((entries w' = entries w \<and> next_id w' = next_id w \<and> brk w \<le> brk w')
      \<or> (entries w' = (next_id w, brk w) # entries w \<and> next_id w' = Suc (next_id w)
          \<and> brk w' = Suc (brk w))
      \<or> ((\<exists>h. entries w' = filter (\<lambda>e. fst e \<noteq> h) (entries w))
          \<and> next_id w' = next_id w \<and> brk w' = brk w))"

section \<open>Facts about the handle functions and the class\<close>

text \<open>
  \<^verbatim>\<open>strcmp\<close> is 0 exactly when the two strings agree up to their first NUL; a string
  without a NUL is read whole.
\<close>

lemma c_str_simps [simp]:
  "c_str [] = []"
  "c_str (c # s) = (if c = CHR 0x00 then [] else c # c_str s)"
  by (simp_all add: c_str_def)

lemma c_str_no_NUL: "CHR 0x00 \<notin> set (c_str s)"
  by (induction s) simp_all

lemma strcmp_chars_0:
  "CHR 0x00 \<notin> set xs \<Longrightarrow> CHR 0x00 \<notin> set ys \<Longrightarrow> strcmp_chars xs ys = 0 \<longleftrightarrow> xs = ys"
proof (induction xs ys rule: strcmp_chars.induct)
  case 1
  show ?case by simp
next
  case (2 y ys)
  then have "of_char y \<noteq> (of_char (CHR 0x00) :: int)"
    unfolding of_char_eq_iff by auto
  then show ?case by simp
next
  case (3 x xs)
  then have "of_char x \<noteq> (of_char (CHR 0x00) :: int)"
    unfolding of_char_eq_iff by auto
  then show ?case by simp
next
  case (4 x xs y ys)
  then show ?case by simp
qed

lemma strcmp_0 [simp]: "strcmp s1 s2 = 0 \<longleftrightarrow> c_str s2 = c_str s1"
  by (auto simp: strcmp_def strcmp_chars_0 c_str_no_NUL)

text \<open>
  \<^verbatim>\<open>mxGetString\<close> fails exactly on what is not a character array and on strings that
  do not fit the buffer with their terminator.
\<close>

lemma mxGetString_None:
  "mxGetString a n = None \<longleftrightarrow> (\<forall>s. a = MxChar s \<longrightarrow> n \<le> length s)"
  by (cases a) auto

lemma recover_fails: "recoverObjFromMatlabId w a = Inl e \<Longrightarrow> e = InvalidHandle"
  by (auto simp: recoverObjFromMatlabId_def split: mxArray.splits option.splits)

lemma recover_valid: "recoverObjFromMatlabId w a = Inr p \<Longrightarrow> checkValidity w a"
  by (auto simp: recoverObjFromMatlabId_def checkValidity_def
      split: mxArray.splits option.splits)

lemma destroy_fails:
  "recoverObjFromMatlabId w a = Inl e \<Longrightarrow> destroyObject w a = (Some InvalidHandle, w)"
  by (auto simp: recoverObjFromMatlabId_def destroyObject_def
      split: mxArray.splits option.splits)

lemma recover_live:
  assumes "world_ok w" "recoverObjFromMatlabId w a = Inr p"
  shows "p < brk w" "a \<noteq> MxUint64 (next_id w)"
proof -
  from assms(2) obtain h where h: "a = MxUint64 h" "map_of (entries w) h = Some p"
    by (auto simp: recoverObjFromMatlabId_def split: mxArray.splits option.splits)
  then have "(h, p) \<in> set (entries w)" by (simp add: map_of_SomeD)
  with assms(1) have "h < next_id w \<and> p < brk w"
    by (auto simp: world_ok_def list_all_iff)
  with h show "p < brk w" "a \<noteq> MxUint64 (next_id w)" by auto
qed

lemma recover_fresh:
  assumes ok: "world_ok w"
  shows "recoverObjFromMatlabId w (MxUint64 (next_id w)) = Inl InvalidHandle"
proof (cases "recoverObjFromMatlabId w (MxUint64 (next_id w))")
  case (Inl e)
  then show ?thesis using recover_fails by blast
next
  case (Inr p)
  then show ?thesis using recover_live(2)[OF ok Inr] by simp
qed

lemma recover_entries:
  "entries w' = entries w \<Longrightarrow> recoverObjFromMatlabId w' a = recoverObjFromMatlabId w a"
  by (simp add: recoverObjFromMatlabId_def split: mxArray.splits)

lemma recover_after_register:
  "recoverObjFromMatlabId (snd (createMatlabIdFromObj w obj)) a =
     (if a = MxUint64 (next_id w) then Inr obj else recoverObjFromMatlabId w a)"
  by (auto simp: recoverObjFromMatlabId_def createMatlabIdFromObj_def
      split: mxArray.splits option.splits)

lemma register_fields:
  "fst (createMatlabIdFromObj w obj) = MxUint64 (next_id w)"
  "heap (snd (createMatlabIdFromObj w obj)) = heap w"
  "brk (snd (createMatlabIdFromObj w obj)) = brk w"
  "console (snd (createMatlabIdFromObj w obj)) = console w"
  "next_id (snd (createMatlabIdFromObj w obj)) = Suc (next_id w)"
  "entries (snd (createMatlabIdFromObj w obj)) = (next_id w, obj) # entries w"
  "registry_size (snd (createMatlabIdFromObj w obj)) = Suc (registry_size w)"
  by (simp_all add: createMatlabIdFromObj_def registry_size_def)

lemma myClass_both: "r\<lparr>valueR := x, valueI := y\<rparr> = \<lparr>valueR = x, valueI = y\<rparr>"
  by (cases r) simp

lemma plus_new_fields:
  "fst (plus_new w this b) = brk w"
  "brk (snd (plus_new w this b)) = Suc (brk w)"
  "entries (snd (plus_new w this b)) = entries w"
  "next_id (snd (plus_new w this b)) = next_id w"
  "console (snd (plus_new w this b)) = console w"
  by (simp_all add: plus_new_def new_myClass_def operator_new_def myClass_ctor_def
      set_valueR_def set_valueI_def Let_def)

lemma plus_new_heap:
  "this \<noteq> brk w \<Longrightarrow> b \<noteq> brk w \<Longrightarrow>
   heap (snd (plus_new w this b)) =
     (heap w)(brk w := \<lparr>valueR = valueR (heap w this) + valueR (heap w b),
                        valueI = valueI (heap w this) + valueI (heap w b)\<rparr>)"
  by (simp add: plus_new_def new_myClass_def operator_new_def myClass_ctor_def
      set_valueR_def set_valueI_def Let_def myClass_both)

lemma plus_run:
  "recoverObjFromMatlabId w a = Inr p \<Longrightarrow> recoverObjFromMatlabId w b = Inr q \<Longrightarrow>
   1 \<le> nlhs \<Longrightarrow>
   mexFunction w nlhs (MxChar ''plus'' # a # b # rest) =
      (Inr (Some (MxUint64 (next_id w))),
       snd (createMatlabIdFromObj (snd (plus_new w p q)) (brk w)))"
  by (simp add: mexFunction_def one_instance_def two_instances_def cmd_plus_def
      plus_with_plus_new_def split_def Let_def plus_new_fields register_fields)

text \<open>The three concrete worlds, field by field.\<close>

lemmas run_defs =
  mexFunction_def one_instance_def two_instances_def cmd_new_def cmd_newFromMatlab_def
  cmd_delete_def cmd_isValid_def cmd_display_def cmd_double_def cmd_plus_def
  plus_with_plus_new_def createMatlabIdFromObj_def recoverObjFromMatlabId_def
  destroyObject_def checkValidity_def new_myClass_def new_myClass_copy_def
  new_myClass_mx_def myClass_mx_ctor_def mx_copy_loops_def mx_copy_item_def
  myClass_ctor_def myClass_copy_ctor_def operator_new_def set_valueR_def set_valueI_def
  plus_new_def display_def

lemma world_A_fields:
  "entries world_A = [(0, 0)]" "next_id world_A = 1" "brk world_A = 1"
  "console world_A = []" "heap world_A 0 = \<lparr>valueR = 0, valueI = 0\<rparr>"
  by (simp_all add: world_A_def world0_def run_defs)

lemma world_AB_fields:
  "entries world_AB = [(1, 1), (0, 0)]" "next_id world_AB = 2" "brk world_AB = 2"
  "console world_AB = []" "heap world_AB 0 = \<lparr>valueR = 0, valueI = 0\<rparr>"
  "heap world_AB (Suc 0) = \<lparr>valueR = 5, valueI = 2\<rparr>"
  by (simp_all add: world_AB_def world_A_def world0_def run_defs myClass_both)

lemma world_deleted_fields:
  "entries world_deleted = []" "next_id world_deleted = 1" "brk world_deleted = 1"
  by (simp_all add: world_deleted_def world_A_def world0_def run_defs)

lemma world_AB_ok: "world_ok world_AB"
  by (simp add: world_ok_def world_AB_fields)

lemma world_AB_recover:
  "recoverObjFromMatlabId world_AB (MxUint64 0) = Inr 0"
  "recoverObjFromMatlabId world_AB (MxUint64 1) = Inr 1"
  "recoverObjFromMatlabId world_AB (MxUint64 9) = Inl InvalidHandle"
  by (simp_all add: recoverObjFromMatlabId_def world_AB_fields)

lemma myClass_both': "r\<lparr>valueI := y, valueR := x\<rparr> = \<lparr>valueR = x, valueI = y\<rparr>"
  by (cases r) simp

lemma new_myClass_fields:
  "fst (new_myClass w) = brk w"
  "brk (snd (new_myClass w)) = Suc (brk w)"
  "entries (snd (new_myClass w)) = entries w"
  "next_id (snd (new_myClass w)) = next_id w"
  "console (snd (new_myClass w)) = console w"
  "heap (snd (new_myClass w)) = (heap w)(brk w := \<lparr>valueR = 0, valueI = 0\<rparr>)"
  by (simp_all add: new_myClass_def operator_new_def myClass_ctor_def
      set_valueR_def set_valueI_def Let_def myClass_both)

lemma new_myClass_copy_fields:
  "fst (new_myClass_copy w a) = brk w"
  "brk (snd (new_myClass_copy w a)) = Suc (brk w)"
  "entries (snd (new_myClass_copy w a)) = entries w"
  "next_id (snd (new_myClass_copy w a)) = next_id w"
  "console (snd (new_myClass_copy w a)) = console w"
  by (simp_all add: new_myClass_copy_def operator_new_def myClass_copy_ctor_def
      set_valueR_def set_valueI_def Let_def)

lemma new_myClass_copy_heap:
  "a \<noteq> brk w \<Longrightarrow>
   heap (snd (new_myClass_copy w a)) =
     (heap w)(brk w := \<lparr>valueR = valueR (heap w a), valueI = valueI (heap w a)\<rparr>)"
  by (simp add: new_myClass_copy_def operator_new_def myClass_copy_ctor_def
      set_valueR_def set_valueI_def Let_def myClass_both)

lemma plus_assign_fields:
  "fst (operator_plus_assign w this b) = this"
  "brk (snd (operator_plus_assign w this b)) = brk w"
  "entries (snd (operator_plus_assign w this b)) = entries w"
  "next_id (snd (operator_plus_assign w this b)) = next_id w"
  "console (snd (operator_plus_assign w this b)) = console w"
  by (simp_all add: operator_plus_assign_def set_valueR_def set_valueI_def Let_def)

lemma plus_assign_heap:
  "b \<noteq> this \<Longrightarrow>
   heap (snd (operator_plus_assign w this b)) =
     (heap w)(this := \<lparr>valueR = valueR (heap w this) + valueR (heap w b),
                       valueI = valueI (heap w this) + valueI (heap w b)\<rparr>)"
  by (simp add: operator_plus_assign_def set_valueR_def set_valueI_def Let_def myClass_both)

text \<open>
  \<^verbatim>\<open>a += a\<close> does change \<^verbatim>\<open>a\<close>: the in-place operator is only harmless on a copy.
\<close>

lemma plus_assign_self:
  "heap (snd (operator_plus_assign w this this)) this =
     \<lparr>valueR = valueR (heap w this) + valueR (heap w this),
      valueI = valueI (heap w this) + valueI (heap w this)\<rparr>"
  by (simp add: operator_plus_assign_def set_valueR_def set_valueI_def Let_def myClass_both)

lemma operator_plus_value:
  "operator_plus w a b = \<lparr>valueR = valueR (heap w a) + valueR (heap w b),
                          valueI = valueI (heap w a) + valueI (heap w b)\<rparr>"
  by (simp add: operator_plus_def)

lemma new_mx_fields:
  "entries (snd (new_myClass_mx w a)) = entries w"
  "next_id (snd (new_myClass_mx w a)) = next_id w"
  "brk (snd (new_myClass_mx w a)) = Suc (brk w)"
  "console (snd (new_myClass_mx w a)) = console w"
  "fst (new_myClass_mx w a) = Inr p \<Longrightarrow> p = brk w"
  by (auto simp: new_myClass_mx_def myClass_mx_ctor_def operator_new_def mx_copy_loops_def
      mx_copy_item_def set_valueR_def set_valueI_def Let_def split: option.splits if_splits)

lemma new_mx_rejects:
  "mxGetM a \<noteq> 1 \<or> mxGetN a \<noteq> 1 \<Longrightarrow>
   fst (new_myClass_mx w a)
     = Inl (MexErrMsgIdAndTxt ''myClass:invalidSize'' ''Size [1 1] expected.'')"
  by (auto simp: new_myClass_mx_def myClass_mx_ctor_def operator_new_def Let_def)

lemma new_mx_scalar:
  "fst (new_myClass_mx w (MxDouble [1, 1] [x] im)) = Inr (brk w)"
  "heap (snd (new_myClass_mx w (MxDouble [1, 1] [x] im))) (brk w) =
     \<lparr>valueR = x, valueI = (case im of None \<Rightarrow> 0 | Some ys \<Rightarrow> ys ! 0)\<rparr>"
  by (cases im; simp add: new_myClass_mx_def myClass_mx_ctor_def operator_new_def
      mx_copy_loops_def mx_copy_item_def set_valueR_def set_valueI_def
      myClass_both myClass_both')+

lemma not_scalar:
  "length ds = 2 \<Longrightarrow> ds \<noteq> [1, 1] \<Longrightarrow>
   mxGetM (MxDouble ds re im) \<noteq> 1 \<or> mxGetN (MxDouble ds re im) \<noteq> 1"
  by (cases ds; cases "tl ds") auto

lemma toDouble_real:
  "valueI (heap w this) = 0 \<Longrightarrow> toDouble w this = MxDouble [1, 1] [valueR (heap w this)] None"
  by (simp add: toDouble_def mx_write_loops_def mx_write_item_def mxCreateDoubleMatrix_def)

lemma toDouble_complex:
  "valueI (heap w this) \<noteq> 0 \<Longrightarrow>
   toDouble w this = MxDouble [1, 1] [valueR (heap w this)] (Some [valueI (heap w this)])"
  by (simp add: toDouble_def mx_write_loops_def mx_write_item_def mxCreateDoubleMatrix_def)

lemma new_run:
  "mexFunction w 1 [MxChar ''new''] =
     (Inr (Some (MxUint64 (next_id w))),
      snd (createMatlabIdFromObj (snd (new_myClass w)) (brk w)))"
  by (simp add: mexFunction_def cmd_new_def split_def Let_def new_myClass_fields
      register_fields)

lemma new_copy_run:
  "recoverObjFromMatlabId w a = Inr q \<Longrightarrow>
   mexFunction w 1 [MxChar ''new'', a] =
     (Inr (Some (MxUint64 (next_id w))),
      snd (createMatlabIdFromObj (snd (new_myClass_copy w q)) (brk w)))"
  by (simp add: mexFunction_def cmd_new_def split_def Let_def new_myClass_copy_fields
      register_fields)

subsection \<open>The invariant of the world\<close>

lemma step_kind_ok: "world_ok w \<Longrightarrow> step_kind w w' \<Longrightarrow> world_ok w'"
  unfolding step_kind_def world_ok_def
  by (elim disjE conjE exE) (auto simp: list_all_iff distinct_map_filter)

lemma step_refl: "step_kind w w"
  by (simp add: step_kind_def)

lemma step_new: "step_kind w (snd (cmd_new w nlhs prhs))"
  by (simp add: step_kind_def cmd_new_def split_def new_myClass_fields
      new_myClass_copy_fields register_fields split: sum.splits)

lemma step_newFromMatlab: "step_kind w (snd (cmd_newFromMatlab w nlhs prhs))"
proof (cases "new_myClass_mx w (prhs ! 1)")
  case (Pair r w1)
  then show ?thesis
    using new_mx_fields[of w "prhs ! 1"]
    by (cases r) (simp_all add: step_kind_def cmd_newFromMatlab_def createMatlabIdFromObj_def)
qed

lemma step_destroy: "step_kind w (snd (destroyObject w a))"
  by (auto simp: step_kind_def destroyObject_def split: mxArray.splits option.splits)

lemma step_delete: "step_kind w (snd (cmd_delete w nlhs prhs))"
proof (cases "destroyObject w (prhs ! 1)")
  case (Pair r w1)
  then show ?thesis
    using step_destroy[of w "prhs ! 1"]
    by (cases r) (simp_all add: cmd_delete_def step_refl)
qed

lemma step_plus: "step_kind w (snd (cmd_plus w nlhs prhs p q))"
  by (simp add: step_kind_def cmd_plus_def plus_with_plus_new_def split_def
      plus_new_fields register_fields)

lemma step_display: "step_kind w (snd (cmd_display w p))"
  by (simp add: step_kind_def cmd_display_def display_def)

lemma step_two: "step_kind w (snd (two_instances w nlhs prhs cmd p))"
  by (cases "recoverObjFromMatlabId w (prhs ! 2)")
    (simp_all add: two_instances_def step_refl step_plus)

lemma step_one: "step_kind w (snd (one_instance w nlhs prhs cmd))"
  by (cases "recoverObjFromMatlabId w (prhs ! 1)")
    (simp_all add: one_instance_def step_refl step_two step_display cmd_isValid_def
      cmd_double_def)

lemma step_mexFunction: "step_kind w (snd (mexFunction w nlhs prhs))"
  by (cases "mxGetString (prhs ! 0) 64")
    (simp_all add: mexFunction_def step_refl step_new step_newFromMatlab step_delete step_one)

text \<open>Every call keeps the invariant, so every world a session reaches has it.\<close>

lemma world_ok_mexFunction: "world_ok w \<Longrightarrow> world_ok (snd (mexFunction w nlhs prhs))"
  using step_kind_ok step_mexFunction by blast

lemma world_ok_session: "world_ok w \<Longrightarrow> world_ok (session w cs)"
  by (induction cs arbitrary: w) (simp_all add: world_ok_mexFunction)

lemma world_ok_reachable: "world_ok (session world0 cs)"
  by (rule world_ok_session) (simp add: world_ok_def world0_def)

subsection \<open>The scenario of the specification, run\<close>

text \<open>
  \<^verbatim>\<open>new\<close> gives identifier 0, \<^verbatim>\<open>newFromMatlab\<close> of 5+2i gives 1, \<^verbatim>\<open>plus\<close> of both gives
  2, whose export is the pair (5, 2); after \<^verbatim>\<open>delete\<close> of 0, \<^verbatim>\<open>isValid\<close> of 1 answers 1
  and \<^verbatim>\<open>isValid\<close> of 0 ends with \<open>InvalidHandle\<close>.
\<close>

lemma world_ABC_fields:
  "entries world_ABC = [(2, 2), (1, 1), (0, 0)]" "next_id world_ABC = 3" "brk world_ABC = 3"
  "heap world_ABC 2 = \<lparr>valueR = 5, valueI = 2\<rparr>"
  using world_AB_recover(1,2)
  by (simp_all add: world_ABC_def mexFunction_def one_instance_def two_instances_def
      cmd_plus_def plus_with_plus_new_def split_def plus_new_fields plus_new_heap
      register_fields world_AB_fields)

lemma world_BC_fields:
  "entries world_BC = [(2, 2), (1, 1)]" "next_id world_BC = 3"
  by (simp_all add: world_BC_def mexFunction_def cmd_delete_def destroyObject_def
      world_ABC_fields)

lemma scenario:
  "fst (mexFunction world0 1 [MxChar ''new'']) = Inr (Some (MxUint64 0))"
  "fst (mexFunction world_A 1 [MxChar ''newFromMatlab'', MxDouble [1, 1] [5] (Some [2])])
     = Inr (Some (MxUint64 1))"
  "fst (mexFunction world_AB 1 [MxChar ''plus'', MxUint64 0, MxUint64 1])
     = Inr (Some (MxUint64 2))"
  "mexFunction world_ABC 1 [MxChar ''double'', MxUint64 2]
     = (Inr (Some (MxDouble [1, 1] [5] (Some [2]))), world_ABC)"
  "fst (mexFunction world_ABC 0 [MxChar ''delete'', MxUint64 0]) = Inr None"
  "mexFunction world_BC 1 [MxChar ''isValid'', MxUint64 0] = (Inl InvalidHandle, world_BC)"
  "mexFunction world_BC 1 [MxChar ''isValid'', MxUint64 1]
     = (Inr (Some (MxUint8 1)), world_BC)"
proof -
  show "fst (mexFunction world0 1 [MxChar ''new'']) = Inr (Some (MxUint64 0))"
    using new_run[of world0] by (simp add: world0_def)
  show "fst (mexFunction world_A 1 [MxChar ''newFromMatlab'', MxDouble [1, 1] [5] (Some [2])])
      = Inr (Some (MxUint64 1))"
    using new_mx_scalar(1)[of world_A 5 "Some [2]"]
      new_mx_fields(2)[of world_A "MxDouble [1, 1] [5] (Some [2])"]
    by (cases "new_myClass_mx world_A (MxDouble [1, 1] [5] (Some [2]))")
      (simp add: mexFunction_def cmd_newFromMatlab_def createMatlabIdFromObj_def
        world_A_fields)
  show "fst (mexFunction world_AB 1 [MxChar ''plus'', MxUint64 0, MxUint64 1])
      = Inr (Some (MxUint64 2))"
    using plus_run[OF world_AB_recover(1) world_AB_recover(2), of 1 "[]"]
    by (simp add: world_AB_fields)
  have r: "recoverObjFromMatlabId world_ABC (MxUint64 2) = Inr 2"
    by (simp add: recoverObjFromMatlabId_def world_ABC_fields)
  show "mexFunction world_ABC 1 [MxChar ''double'', MxUint64 2]
      = (Inr (Some (MxDouble [1, 1] [5] (Some [2]))), world_ABC)"
    using r toDouble_complex[of world_ABC 2]
    by (simp add: mexFunction_def one_instance_def cmd_double_def world_ABC_fields)
  show "fst (mexFunction world_ABC 0 [MxChar ''delete'', MxUint64 0]) = Inr None"
    by (simp add: mexFunction_def cmd_delete_def destroyObject_def world_ABC_fields)
  show "mexFunction world_BC 1 [MxChar ''isValid'', MxUint64 0] = (Inl InvalidHandle, world_BC)"
    by (simp add: mexFunction_def one_instance_def recoverObjFromMatlabId_def
        world_BC_fields)
  show "mexFunction world_BC 1 [MxChar ''isValid'', MxUint64 1]
      = (Inr (Some (MxUint8 1)), world_BC)"
    by (simp add: mexFunction_def one_instance_def recoverObjFromMatlabId_def
        cmd_isValid_def checkValidity_def world_BC_fields)
qed

subsection \<open>A command with a NUL inside\<close>

text \<open>
  What follows a NUL in the command string is not compared: \<^verbatim>\<open>new\<close>, a NUL and more
  characters is \<^verbatim>\<open>new\<close> for the gateway.
\<close>

lemma command_read_to_first_NUL:
  "mexFunction w nlhs (MxChar (''new'' @ [CHR 0x00] @ ''x'') # args)
     = mexFunction w nlhs (MxChar ''new'' # args)"
  by (simp add: mexFunction_def cmd_new_def)

subsection \<open>The answers of isValid\<close>

text \<open>
  Whatever the world, the outputs asked for and the arguments, \<^verbatim>\<open>isValid\<close> never
  answers 0: when the gateway reaches \<^verbatim>\<open>checkValidity\<close> the instance was already
  recovered from the same argument.
\<close>

lemma isValid_never_false:
  "fst (mexFunction w nlhs (MxChar ''isValid'' # args)) \<noteq> Inr (Some (MxUint8 0))"
proof (cases args)
  case Nil
  then show ?thesis
    by (simp add: mexFunction_def one_instance_def)
next
  case (Cons a rest)
  show ?thesis
  proof (cases "recoverObjFromMatlabId w a")
    case (Inl e)
    then show ?thesis
      using Cons by (simp add: mexFunction_def one_instance_def)
  next
    case (Inr p)
    then show ?thesis
      using Cons recover_valid[OF Inr]
      by (simp add: mexFunction_def one_instance_def cmd_isValid_def)
  qed
qed

section \<open>The claims\<close>

subsection \<open>C10: no command string\<close>

text \<open>
  C10. A call with no input at all, or whose first input \<^verbatim>\<open>mxGetString\<close> cannot copy into
  the 64-byte buffer (it is not a character array, or has 64 characters or more), ends
  with the error of line 29 and leaves the world as it was: no command is compared, no
  handle recovered, nothing allocated, registered or printed.
\<close>

theorem C10_no_command_string:
  "prhs = [] \<or> mxGetString (prhs ! 0) 64 = None \<Longrightarrow>
   mexFunction w nlhs prhs =
     (Inl (MexErrMsgTxt
        ''First input should be a command string less than 64 characters long.''), w)"
  by (auto simp: mexFunction_def)

theorem C10_witness:
  "mexFunction world_AB 1 [] =
     (Inl (MexErrMsgTxt
        ''First input should be a command string less than 64 characters long.''), world_AB)
   \<and> mxGetString (MxChar (replicate 64 (CHR ''a''))) 64 = None
   \<and> mexFunction world_AB 1 [MxChar (replicate 64 (CHR ''a'')), MxUint64 0] =
     (Inl (MexErrMsgTxt
        ''First input should be a command string less than 64 characters long.''), world_AB)
   \<and> mxGetString (MxUint64 0) 64 = None
   \<and> mexFunction world_AB 1 [MxUint64 0, MxUint64 1] =
     (Inl (MexErrMsgTxt
        ''First input should be a command string less than 64 characters long.''), world_AB)"
  using C10_no_command_string[of "[]" world_AB 1]
    C10_no_command_string[of "[MxChar (replicate 64 (CHR ''a'')), MxUint64 0]" world_AB 1]
    C10_no_command_string[of "[MxUint64 0, MxUint64 1]" world_AB 1]
  by simp

subsection \<open>C1: isValid on a dead handle\<close>

text \<open>
  C1 says that \<^verbatim>\<open>isValid\<close> answers false for a dead handle instead of failing. The
  gateway recovers the instance of \<^verbatim>\<open>prhs[1]\<close> on line 112, before it compares the
  command with \<^verbatim>\<open>"isValid"\<close>, so for a handle that was never issued, and for one that
  was released, the call ends with \<open>InvalidHandle\<close>, while a live handle gets the
  answer 1. The branch of lines 133 and 134 that stores 0 is never reached: no call of
  \<^verbatim>\<open>isValid\<close> answers 0.
\<close>

theorem C1_isValid_dead_handle:
  "mexFunction world0 1 [MxChar ''isValid'', MxUint64 0] = (Inl InvalidHandle, world0)
   \<and> mexFunction world_deleted 1 [MxChar ''isValid'', MxUint64 0]
       = (Inl InvalidHandle, world_deleted)
   \<and> mexFunction world_A 1 [MxChar ''isValid'', MxUint64 0]
       = (Inr (Some (MxUint8 1)), world_A)
   \<and> fst (mexFunction w nlhs (MxChar ''isValid'' # args)) \<noteq> Inr (Some (MxUint8 0))"
  using isValid_never_false[of w nlhs args]
  by (simp add: mexFunction_def one_instance_def cmd_isValid_def recoverObjFromMatlabId_def
      checkValidity_def world_A_fields world_deleted_fields) (simp add: world0_def)

subsection \<open>C2: unknown verbs\<close>

text \<open>
  C2 says that a verb outside the seven always fails with the unrecognized-command
  error. With no further input the gateway fails on line 108 instead.
\<close>

theorem C2_counterexample:
  "c_str ''frobnicate'' \<notin> set verbs
   \<and> mexFunction world0 0 [MxChar ''frobnicate'']
       = (Inl (MexErrMsgTxt ''Second input not found.''), world0)
   \<and> fst (mexFunction world0 0 [MxChar ''frobnicate''])
       \<noteq> Inl (MexErrMsgTxt ''Command not recognized.'')"
  by (simp add: verbs_def mexFunction_def one_instance_def)

text \<open>
  C2, amended. The command the gateway compares is the C string in its buffer: the
  characters before the first NUL of the string passed, or all of them when there is
  none (\<open>c_str\<close>). For a command string of fewer than 64 characters whose C string is
  none of the seven verbs the call fails and leaves the world as it was; which error it
  is depends on the inputs after the command. With none: \<^verbatim>\<open>Second input not found.\<close> When the first does
  not resolve, or the first resolves and the second does not: the error of the
  resolution. When the first two resolve: \<^verbatim>\<open>Command not recognized.\<close> (A single input
  that resolves is left out: the gateway then reads \<^verbatim>\<open>prhs[2]\<close> past the end.)
\<close>

theorem C2_unknown_verb:
  "mxGetString v 64 = Some cmd \<Longrightarrow> c_str cmd \<notin> set verbs \<Longrightarrow>
     mexFunction w nlhs [v] = (Inl (MexErrMsgTxt ''Second input not found.''), w)
   \<and> (recoverObjFromMatlabId w a = Inl e \<longrightarrow>
         mexFunction w nlhs (v # a # rest) = (Inl e, w))
   \<and> (recoverObjFromMatlabId w a = Inr p \<and> recoverObjFromMatlabId w b = Inl e \<longrightarrow>
         mexFunction w nlhs (v # a # b # rest) = (Inl e, w))
   \<and> (recoverObjFromMatlabId w a = Inr p \<and> recoverObjFromMatlabId w b = Inr q \<longrightarrow>
         mexFunction w nlhs (v # a # b # rest)
           = (Inl (MexErrMsgTxt ''Command not recognized.''), w))"
  by (simp add: mexFunction_def one_instance_def two_instances_def verbs_def)

theorem C2_witness:
  "mxGetString (MxChar ''frobnicate'') 64 = Some ''frobnicate''
   \<and> c_str ''frobnicate'' = ''frobnicate''
   \<and> c_str ''frobnicate'' \<notin> set verbs
   \<and> mexFunction world_AB 0 [MxChar ''frobnicate'']
       = (Inl (MexErrMsgTxt ''Second input not found.''), world_AB)
   \<and> mexFunction world_AB 0 [MxChar ''frobnicate'', MxUint64 9] = (Inl InvalidHandle, world_AB)
   \<and> mexFunction world_AB 0 [MxChar ''frobnicate'', MxUint64 0, MxUint64 9]
       = (Inl InvalidHandle, world_AB)
   \<and> mexFunction world_AB 0 [MxChar ''frobnicate'', MxUint64 0, MxUint64 1]
       = (Inl (MexErrMsgTxt ''Command not recognized.''), world_AB)
   \<and> c_str (''zz'' @ [CHR 0x00] @ ''new'') = ''zz''
   \<and> mexFunction world_AB 0 [MxChar (''zz'' @ [CHR 0x00] @ ''new'')]
       = (Inl (MexErrMsgTxt ''Second input not found.''), world_AB)"
proof -
  have s: "mxGetString (MxChar ''frobnicate'') 64 = Some ''frobnicate''" by simp
  have v: "c_str ''frobnicate'' \<notin> set verbs" by (simp add: verbs_def)
  have s': "mxGetString (MxChar (''zz'' @ [CHR 0x00] @ ''new'')) 64
              = Some (''zz'' @ [CHR 0x00] @ ''new'')"
    by simp
  have v': "c_str (''zz'' @ [CHR 0x00] @ ''new'') \<notin> set verbs" by (simp add: verbs_def)
  show ?thesis
    using s v world_AB_recover C2_unknown_verb[OF s' v', of world_AB 0]
      C2_unknown_verb[OF s v, of world_AB 0 "MxUint64 9" InvalidHandle "[]"]
      C2_unknown_verb[OF s v, of world_AB 0 "MxUint64 0" _ "[]" 0 "MxUint64 9"]
      C2_unknown_verb[OF s v, of world_AB 0 "MxUint64 0" _ "[]" 0 "MxUint64 1" 1]
    by simp
qed

subsection \<open>C3: a handle that does not resolve\<close>

text \<open>
  C3. In a call of \<^verbatim>\<open>new\<close> with a source (asking for its one output), of \<^verbatim>\<open>delete\<close>,
  \<^verbatim>\<open>display\<close>, \<^verbatim>\<open>double\<close> or \<^verbatim>\<open>plus\<close>, if a handle argument \<open>a\<close> does not resolve then
  the resolution error is \<open>InvalidHandle\<close>, the call ends with it, and the world after
  the call is the world before it: nothing was allocated, registered, released or
  printed. For \<^verbatim>\<open>plus\<close> the bad handle may stand first or second, whatever the other
  argument \<open>b\<close> is, and the number of registered objects is unchanged. (\<^verbatim>\<open>new\<close> checks
  the number of outputs first, so with another number asked for it fails with that
  error; the world is unchanged all the same. \<^verbatim>\<open>isValid\<close>, which the specification
  exempts from resolution, is the subject of C1.)
\<close>

theorem C3_unresolved_handle_aborts:
  "recoverObjFromMatlabId w a = Inl e \<Longrightarrow>
     e = InvalidHandle
   \<and> mexFunction w 1 [MxChar ''new'', a] = (Inl InvalidHandle, w)
   \<and> mexFunction w nlhs [MxChar ''delete'', a] = (Inl InvalidHandle, w)
   \<and> mexFunction w nlhs [MxChar ''display'', a] = (Inl InvalidHandle, w)
   \<and> mexFunction w nlhs [MxChar ''double'', a] = (Inl InvalidHandle, w)
   \<and> mexFunction w nlhs [MxChar ''plus'', a, b] = (Inl InvalidHandle, w)
   \<and> mexFunction w nlhs [MxChar ''plus'', b, a] = (Inl InvalidHandle, w)
   \<and> registry_size (snd (mexFunction w nlhs [MxChar ''plus'', a, b])) = registry_size w
   \<and> registry_size (snd (mexFunction w nlhs [MxChar ''plus'', b, a])) = registry_size w
   \<and> isl (fst (mexFunction w nlhs [MxChar ''new'', a]))
   \<and> snd (mexFunction w nlhs [MxChar ''new'', a]) = w"
proof -
  assume bad: "recoverObjFromMatlabId w a = Inl e"
  then have e: "e = InvalidHandle"
    by (rule recover_fails)
  have a: "recoverObjFromMatlabId w a = Inl InvalidHandle"
    using bad e by simp
  have new: "mexFunction w 1 [MxChar ''new'', a] = (Inl InvalidHandle, w)"
    using a by (simp add: mexFunction_def cmd_new_def)
  have new': "isl (fst (mexFunction w nlhs [MxChar ''new'', a]))"
    "snd (mexFunction w nlhs [MxChar ''new'', a]) = w"
    using a by (simp_all add: mexFunction_def cmd_new_def)
  have del: "mexFunction w nlhs [MxChar ''delete'', a] = (Inl InvalidHandle, w)"
    using destroy_fails[OF bad] by (simp add: mexFunction_def cmd_delete_def)
  have first: "mexFunction w nlhs (MxChar cmd # a # rest) = (Inl InvalidHandle, w)"
    if "c_str cmd \<noteq> ''new''" "c_str cmd \<noteq> ''newFromMatlab''" "c_str cmd \<noteq> ''delete''"
      "length cmd < 64"
    for cmd rest
    using a that by (simp add: mexFunction_def one_instance_def)
  have second: "mexFunction w nlhs [MxChar ''plus'', b, a] = (Inl InvalidHandle, w)"
    using a recover_fails[of w b]
    by (cases "recoverObjFromMatlabId w b")
      (simp_all add: mexFunction_def one_instance_def two_instances_def)
  show ?thesis
    using e new new' del first[of "''display''" "[]"] first[of "''double''" "[]"]
      first[of "''plus''" "[b]"] second
    by simp
qed

theorem C3_witness:
  "recoverObjFromMatlabId world_AB (MxUint64 9) = Inl InvalidHandle
   \<and> mexFunction world_AB 1 [MxChar ''new'', MxUint64 9] = (Inl InvalidHandle, world_AB)
   \<and> mexFunction world_AB 0 [MxChar ''delete'', MxUint64 9] = (Inl InvalidHandle, world_AB)
   \<and> mexFunction world_AB 0 [MxChar ''display'', MxUint64 9] = (Inl InvalidHandle, world_AB)
   \<and> mexFunction world_AB 1 [MxChar ''double'', MxUint64 9] = (Inl InvalidHandle, world_AB)
   \<and> mexFunction world_AB 1 [MxChar ''plus'', MxUint64 9, MxUint64 0]
       = (Inl InvalidHandle, world_AB)
   \<and> mexFunction world_AB 1 [MxChar ''plus'', MxUint64 0, MxUint64 9]
       = (Inl InvalidHandle, world_AB)
   \<and> registry_size (snd (mexFunction world_AB 1 [MxChar ''plus'', MxUint64 0, MxUint64 9])) = 2
   \<and> snd (mexFunction world_AB 0 [MxChar ''new'', MxUint64 9]) = world_AB"
  using C3_unresolved_handle_aborts[OF world_AB_recover(3), of 0 "MxUint64 0"]
    C3_unresolved_handle_aborts[OF world_AB_recover(3), of 1 "MxUint64 0"]
    world_AB_recover(3)
  by (simp add: registry_size_def world_AB_fields)

subsection \<open>C4: plus\<close>

text \<open>
  C4. In a world that a session can reach, \<^verbatim>\<open>plus\<close> of two arguments that resolve to
  the objects \<open>p\<close> and \<open>q\<close>, with at least one output asked for, returns the next
  identifier. That identifier differs from both arguments and did not resolve before the
  call; after the call it resolves to a new object whose members are the sums of the
  members of \<open>p\<close> and \<open>q\<close>; both arguments still resolve to \<open>p\<close> and \<open>q\<close>, whose
  members are what they were; one more object is registered.
\<close>

theorem C4_plus_registers_sum:
  "world_ok w \<Longrightarrow> recoverObjFromMatlabId w a = Inr p \<Longrightarrow>
   recoverObjFromMatlabId w b = Inr q \<Longrightarrow> 1 \<le> nlhs \<Longrightarrow>
   (let h3 = MxUint64 (next_id w);
        w' = snd (mexFunction w nlhs [MxChar ''plus'', a, b])
    in fst (mexFunction w nlhs [MxChar ''plus'', a, b]) = Inr (Some h3)
       \<and> h3 \<noteq> a \<and> h3 \<noteq> b
       \<and> recoverObjFromMatlabId w h3 = Inl InvalidHandle
       \<and> recoverObjFromMatlabId w' h3 = Inr (brk w)
       \<and> heap w' (brk w) = \<lparr>valueR = valueR (heap w p) + valueR (heap w q),
                             valueI = valueI (heap w p) + valueI (heap w q)\<rparr>
       \<and> recoverObjFromMatlabId w' a = Inr p \<and> heap w' p = heap w p
       \<and> recoverObjFromMatlabId w' b = Inr q \<and> heap w' q = heap w q
       \<and> registry_size w' = Suc (registry_size w))"
proof -
  assume ok: "world_ok w" and a: "recoverObjFromMatlabId w a = Inr p"
    and b: "recoverObjFromMatlabId w b = Inr q" and n: "1 \<le> nlhs"
  note la = recover_live[OF ok a] and lb = recover_live[OF ok b]
  have ne: "p \<noteq> brk w" "q \<noteq> brk w"
    using la(1) lb(1) by simp_all
  have pn: "recoverObjFromMatlabId (snd (plus_new w p q)) x = recoverObjFromMatlabId w x" for x
    by (rule recover_entries) (simp add: plus_new_fields)
  have sz: "registry_size (snd (plus_new w p q)) = registry_size w"
    by (simp add: registry_size_def plus_new_fields)
  show ?thesis
    unfolding Let_def plus_run[OF a b n] fst_conv snd_conv
    using la(2) lb(2) ne a b recover_fresh[OF ok]
    by (simp add: recover_after_register register_fields pn sz plus_new_heap plus_new_fields)
qed

theorem C4_witness:
  "world_ok world_AB
   \<and> recoverObjFromMatlabId world_AB (MxUint64 0) = Inr 0
   \<and> recoverObjFromMatlabId world_AB (MxUint64 1) = Inr 1
   \<and> fst (mexFunction world_AB 1 [MxChar ''plus'', MxUint64 0, MxUint64 1])
       = Inr (Some (MxUint64 2))
   \<and> recoverObjFromMatlabId
         (snd (mexFunction world_AB 1 [MxChar ''plus'', MxUint64 0, MxUint64 1])) (MxUint64 2)
       = Inr 2
   \<and> heap (snd (mexFunction world_AB 1 [MxChar ''plus'', MxUint64 0, MxUint64 1])) 2
       = \<lparr>valueR = 5, valueI = 2\<rparr>
   \<and> heap (snd (mexFunction world_AB 1 [MxChar ''plus'', MxUint64 0, MxUint64 1])) 0
       = \<lparr>valueR = 0, valueI = 0\<rparr>
   \<and> heap (snd (mexFunction world_AB 1 [MxChar ''plus'', MxUint64 0, MxUint64 1])) 1
       = \<lparr>valueR = 5, valueI = 2\<rparr>
   \<and> registry_size (snd (mexFunction world_AB 1 [MxChar ''plus'', MxUint64 0, MxUint64 1]))
       = 3"
  using C4_plus_registers_sum[OF world_AB_ok world_AB_recover(1) world_AB_recover(2), of 1]
    world_AB_ok world_AB_recover
  by (simp add: Let_def registry_size_def world_AB_fields)

subsection \<open>C8: new\<close>

text \<open>
  C8. In a world that a session can reach, and with one output asked for: \<^verbatim>\<open>new\<close>
  with no argument returns the next identifier, which did not resolve before and now
  resolves to a new object with both members zero; \<^verbatim>\<open>new\<close> with an argument that
  resolves to the object \<open>q\<close> returns the next identifier, which differs from the
  argument, did not resolve before and now resolves to a new object, other than \<open>q\<close>,
  whose members are those of \<open>q\<close>; the argument still resolves to \<open>q\<close>, unchanged.
  Either way one more object is registered.
\<close>

theorem C8_new_default_and_copy:
  "world_ok w \<Longrightarrow>
   (let h = MxUint64 (next_id w);
        w' = snd (mexFunction w 1 [MxChar ''new''])
    in fst (mexFunction w 1 [MxChar ''new'']) = Inr (Some h)
       \<and> recoverObjFromMatlabId w h = Inl InvalidHandle
       \<and> recoverObjFromMatlabId w' h = Inr (brk w)
       \<and> heap w' (brk w) = \<lparr>valueR = 0, valueI = 0\<rparr>
       \<and> registry_size w' = Suc (registry_size w))
   \<and> (recoverObjFromMatlabId w a = Inr q \<longrightarrow>
       (let h = MxUint64 (next_id w);
            w' = snd (mexFunction w 1 [MxChar ''new'', a])
        in fst (mexFunction w 1 [MxChar ''new'', a]) = Inr (Some h)
           \<and> h \<noteq> a
           \<and> recoverObjFromMatlabId w h = Inl InvalidHandle
           \<and> recoverObjFromMatlabId w' h = Inr (brk w)
           \<and> brk w \<noteq> q
           \<and> heap w' (brk w) = heap w q
           \<and> recoverObjFromMatlabId w' a = Inr q
           \<and> heap w' q = heap w q
           \<and> registry_size w' = Suc (registry_size w)))"
proof -
  assume ok: "world_ok w"
  have sz: "registry_size (snd (new_myClass w)) = registry_size w"
    "registry_size (snd (new_myClass_copy w q)) = registry_size w"
    by (simp_all add: registry_size_def new_myClass_fields new_myClass_copy_fields)
  have default:
    "let h = MxUint64 (next_id w);
         w' = snd (mexFunction w 1 [MxChar ''new''])
     in fst (mexFunction w 1 [MxChar ''new'']) = Inr (Some h)
        \<and> recoverObjFromMatlabId w h = Inl InvalidHandle
        \<and> recoverObjFromMatlabId w' h = Inr (brk w)
        \<and> heap w' (brk w) = \<lparr>valueR = 0, valueI = 0\<rparr>
        \<and> registry_size w' = Suc (registry_size w)"
    unfolding Let_def new_run fst_conv snd_conv
    using recover_fresh[OF ok]
    by (simp add: recover_after_register register_fields new_myClass_fields sz)
  have copy:
    "let h = MxUint64 (next_id w);
         w' = snd (mexFunction w 1 [MxChar ''new'', a])
     in fst (mexFunction w 1 [MxChar ''new'', a]) = Inr (Some h)
        \<and> h \<noteq> a
        \<and> recoverObjFromMatlabId w h = Inl InvalidHandle
        \<and> recoverObjFromMatlabId w' h = Inr (brk w)
        \<and> brk w \<noteq> q
        \<and> heap w' (brk w) = heap w q
        \<and> recoverObjFromMatlabId w' a = Inr q
        \<and> heap w' q = heap w q
        \<and> registry_size w' = Suc (registry_size w)"
    if a: "recoverObjFromMatlabId w a = Inr q"
  proof -
    note la = recover_live[OF ok a]
    have ne: "q \<noteq> brk w"
      using la(1) by simp
    have rc: "recoverObjFromMatlabId (snd (new_myClass_copy w q)) x
                = recoverObjFromMatlabId w x" for x
      by (rule recover_entries) (simp add: new_myClass_copy_fields)
    show ?thesis
      unfolding Let_def new_copy_run[OF a] fst_conv snd_conv
      using la(2) ne a recover_fresh[OF ok]
      by (simp add: recover_after_register register_fields new_myClass_copy_fields
          new_myClass_copy_heap rc sz)
  qed
  show ?thesis
    using default copy by blast
qed

theorem C8_witness:
  "world_ok world_AB
   \<and> fst (mexFunction world_AB 1 [MxChar ''new'']) = Inr (Some (MxUint64 2))
   \<and> recoverObjFromMatlabId world_AB (MxUint64 2) = Inl InvalidHandle
   \<and> recoverObjFromMatlabId (snd (mexFunction world_AB 1 [MxChar ''new''])) (MxUint64 2)
       = Inr 2
   \<and> heap (snd (mexFunction world_AB 1 [MxChar ''new''])) 2 = \<lparr>valueR = 0, valueI = 0\<rparr>
   \<and> recoverObjFromMatlabId world_AB (MxUint64 1) = Inr 1
   \<and> fst (mexFunction world_AB 1 [MxChar ''new'', MxUint64 1]) = Inr (Some (MxUint64 2))
   \<and> recoverObjFromMatlabId
         (snd (mexFunction world_AB 1 [MxChar ''new'', MxUint64 1])) (MxUint64 2) = Inr 2
   \<and> heap (snd (mexFunction world_AB 1 [MxChar ''new'', MxUint64 1])) 2
       = \<lparr>valueR = 5, valueI = 2\<rparr>
   \<and> heap (snd (mexFunction world_AB 1 [MxChar ''new'', MxUint64 1])) 1
       = \<lparr>valueR = 5, valueI = 2\<rparr>
   \<and> registry_size (snd (mexFunction world_AB 1 [MxChar ''new'', MxUint64 1])) = 3"
  using C8_new_default_and_copy[OF world_AB_ok, of "MxUint64 1" 1]
    world_AB_ok world_AB_recover
  by (simp add: Let_def registry_size_def world_AB_fields)

subsection \<open>C9: the ways to add\<close>

text \<open>
  C9. For two live objects \<open>a\<close> and \<open>b\<close> (addresses already handed out, possibly the
  same one), \<^verbatim>\<open>plus_new\<close>, \<^verbatim>\<open>plus_new_ptr\<close>, a copy of \<open>a\<close> followed by \<^verbatim>\<open>+=\<close>, and
  \<^verbatim>\<open>operator+\<close> all give an object whose members are the sums of the members of \<open>a\<close>
  and \<open>b\<close>, and after each of them \<open>a\<close> and \<open>b\<close> hold what they held before. The
  three alternatives written in the gateway give the same identifier and the same world.
\<close>

theorem C9_additions_agree:
  "a < brk w \<Longrightarrow> b < brk w \<Longrightarrow>
   (let sum = \<lparr>valueR = valueR (heap w a) + valueR (heap w b),
               valueI = valueI (heap w a) + valueI (heap w b)\<rparr>;
        copy = new_myClass_copy w a;
        w1 = snd (plus_new w a b);
        w2 = snd (plus_new_ptr w a b);
        w3 = snd (operator_plus_assign (snd copy) (fst copy) b)
    in heap w1 (fst (plus_new w a b)) = sum
       \<and> heap w2 (fst (plus_new_ptr w a b)) = sum
       \<and> heap w3 (fst (operator_plus_assign (snd copy) (fst copy) b)) = sum
       \<and> operator_plus w a b = sum
       \<and> heap w1 a = heap w a \<and> heap w1 b = heap w b
       \<and> heap w2 a = heap w a \<and> heap w2 b = heap w b
       \<and> heap w3 a = heap w a \<and> heap w3 b = heap w b
       \<and> plus_with_plus_new_ptr w a b = plus_with_plus_new w a b
       \<and> plus_with_copy w a b = plus_with_plus_new w a b)"
proof -
  assume a: "a < brk w" and b: "b < brk w"
  then have ne: "a \<noteq> brk w" "b \<noteq> brk w"
    by simp_all
  have cp: "heap (snd (operator_plus_assign (snd (new_myClass_copy w a)) (brk w) b)) =
      (heap w)(brk w := \<lparr>valueR = valueR (heap w a) + valueR (heap w b),
                         valueI = valueI (heap w a) + valueI (heap w b)\<rparr>)"
    using ne by (simp add: plus_assign_heap new_myClass_copy_heap)
  have w3: "snd (operator_plus_assign (snd (new_myClass_copy w a)) (brk w) b)
              = snd (plus_new w a b)"
    using ne
    by (simp add: operator_plus_assign_def new_myClass_copy_def plus_new_def new_myClass_def
        operator_new_def myClass_ctor_def myClass_copy_ctor_def
        set_valueR_def set_valueI_def Let_def myClass_both)
  have same: "plus_with_copy w a b = plus_with_plus_new w a b"
    by (simp add: plus_with_copy_def plus_with_plus_new_def split_def Let_def
        new_myClass_copy_fields plus_assign_fields plus_new_fields w3)
  have ptr: "plus_with_plus_new_ptr w a b = plus_with_plus_new w a b"
    by (simp add: plus_with_plus_new_ptr_def plus_with_plus_new_def plus_new_ptr_def
        createMatlabIdFromPtr_def)
  show ?thesis
    unfolding Let_def
    using ne same ptr
    by (simp add: plus_new_ptr_def plus_new_fields plus_new_heap new_myClass_copy_fields
        plus_assign_fields cp operator_plus_value)
qed

theorem C9_witness:
  "(0::nat) < brk world_AB \<and> 1 < brk world_AB
   \<and> heap (snd (plus_new world_AB 0 1)) (fst (plus_new world_AB 0 1))
       = \<lparr>valueR = 5, valueI = 2\<rparr>
   \<and> heap (snd (plus_new_ptr world_AB 1 1)) (fst (plus_new_ptr world_AB 1 1))
       = \<lparr>valueR = 10, valueI = 4\<rparr>
   \<and> operator_plus world_AB 1 1 = \<lparr>valueR = 10, valueI = 4\<rparr>
   \<and> heap (snd (plus_new_ptr world_AB 1 1)) 1 = \<lparr>valueR = 5, valueI = 2\<rparr>
   \<and> plus_with_copy world_AB 1 1 = plus_with_plus_new world_AB 1 1
   \<and> plus_with_copy world_AB 0 1 = plus_with_plus_new world_AB 0 1"
proof -
  have live: "(0::nat) < brk world_AB" "1 < brk world_AB"
    by (simp_all add: world_AB_fields)
  show ?thesis
    using live C9_additions_agree[OF live(1) live(2)] C9_additions_agree[OF live(2) live(2)]
    by (simp add: Let_def world_AB_fields)
qed

subsection \<open>C5: newFromMatlab of an array that is not 1-by-1\<close>

text \<open>
  C5. \<^verbatim>\<open>newFromMatlab\<close> of one double array whose dimensions are not \<open>[1, 1]\<close> fails.
  With at most one output asked for the error is \<^verbatim>\<open>myClass:inputNot2D\<close> when the array
  does not have two dimensions and \<^verbatim>\<open>myClass:invalidSize\<close> when it has two but is not
  1-by-1 (a 2-by-3 block, an empty array); with more outputs asked for the call has
  already failed on their number. Both are errors about the shape of the raw data, the
  spec's InvalidArgument, as is \<^verbatim>\<open>myClass:inputNotDouble\<close> for an array that is not of
  class double. No output is set, and the registry is as before: same entries, same
  counter, same size. (In the second case the storage taken by
  \<^verbatim>\<open>new myClass(prhs[1])\<close> before the constructor failed stays allocated, unregistered.)
\<close>

theorem C5_newFromMatlab_rejects_non_scalar:
  "ds \<noteq> [1, 1] \<Longrightarrow>
   (let r = mexFunction w nlhs [MxChar ''newFromMatlab'', MxDouble ds re im]
    in isl (fst r)
       \<and> (nlhs \<le> 1 \<longrightarrow>
            fst r = Inl (if length ds \<noteq> 2
                         then MexErrMsgIdAndTxt ''myClass:inputNot2D''
                                (''Input argument must be two dimensional'' @ [CHR 0x0A])
                         else MexErrMsgIdAndTxt ''myClass:invalidSize''
                                ''Size [1 1] expected.''))
       \<and> entries (snd r) = entries w
       \<and> next_id (snd r) = next_id w
       \<and> registry_size (snd r) = registry_size w
       \<and> console (snd r) = console w)
   \<and> (nlhs \<le> 1 \<longrightarrow>
        mexFunction w nlhs [MxChar ''newFromMatlab'', MxOther]
          = (Inl (MexErrMsgIdAndTxt ''myClass:inputNotDouble''
                    ''Input argument must be of type double.''), w))"
proof -
  assume ds: "ds \<noteq> [1, 1]"
  let ?call = "mexFunction w nlhs [MxChar ''newFromMatlab'', MxDouble ds re im]"
  have many: "?call = (Inl (MexErrMsgIdAndTxt ''myClass:maxlhs'' ''Too many output arguments.''), w)"
    if "1 < nlhs"
    using that by (simp add: mexFunction_def cmd_newFromMatlab_def)
  have dims: "?call = (Inl (MexErrMsgIdAndTxt ''myClass:inputNot2D''
                (''Input argument must be two dimensional'' @ [CHR 0x0A])), w)"
    if "nlhs \<le> 1" "length ds \<noteq> 2"
    using that by (simp add: mexFunction_def cmd_newFromMatlab_def)
  have size: "?call = (Inl (MexErrMsgIdAndTxt ''myClass:invalidSize'' ''Size [1 1] expected.''),
         snd (new_myClass_mx w (MxDouble ds re im)))"
    if "nlhs \<le> 1" "length ds = 2"
    using that new_mx_rejects[OF not_scalar[OF that(2) ds, of re im], of w]
    by (cases "new_myClass_mx w (MxDouble ds re im)")
      (auto simp: mexFunction_def cmd_newFromMatlab_def)
  have other: "mexFunction w nlhs [MxChar ''newFromMatlab'', MxOther]
      = (Inl (MexErrMsgIdAndTxt ''myClass:inputNotDouble''
                ''Input argument must be of type double.''), w)"
    if "nlhs \<le> 1"
    using that by (simp add: mexFunction_def cmd_newFromMatlab_def)
  consider "1 < nlhs" | "nlhs \<le> 1" "length ds \<noteq> 2" | "nlhs \<le> 1" "length ds = 2"
    by linarith
  then show ?thesis
  proof cases
    case 1
    then show ?thesis
      unfolding Let_def many[OF 1] by simp
  next
    case 2
    then show ?thesis
      unfolding Let_def dims[OF 2] using other by simp
  next
    case 3
    then show ?thesis
      unfolding Let_def size[OF 3] using other
      by (simp add: registry_size_def new_mx_fields)
  qed
qed

theorem C5_witness:
  "[2, 3] \<noteq> [1, 1::nat] \<and> [1, 1, 1] \<noteq> [1, 1::nat] \<and> (1::nat) \<le> 1
   \<and> fst (mexFunction world_AB 1
            [MxChar ''newFromMatlab'', MxDouble [2, 3] [1, 2, 3, 4, 5, 6] None])
       = Inl (MexErrMsgIdAndTxt ''myClass:invalidSize'' ''Size [1 1] expected.'')
   \<and> entries (snd (mexFunction world_AB 1
            [MxChar ''newFromMatlab'', MxDouble [2, 3] [1, 2, 3, 4, 5, 6] None]))
       = [(1, 1), (0, 0)]
   \<and> registry_size (snd (mexFunction world_AB 1
            [MxChar ''newFromMatlab'', MxDouble [2, 3] [1, 2, 3, 4, 5, 6] None]))
       = 2
   \<and> fst (mexFunction world_AB 1 [MxChar ''newFromMatlab'', MxDouble [1, 1, 1] [7] None])
       = Inl (MexErrMsgIdAndTxt ''myClass:inputNot2D''
                (''Input argument must be two dimensional'' @ [CHR 0x0A]))
   \<and> isl (fst (mexFunction world_AB 2
            [MxChar ''newFromMatlab'', MxDouble [2, 3] [1, 2, 3, 4, 5, 6] None]))
   \<and> mexFunction world_AB 1 [MxChar ''newFromMatlab'', MxOther]
       = (Inl (MexErrMsgIdAndTxt ''myClass:inputNotDouble''
                 ''Input argument must be of type double.''), world_AB)"
  using
    C5_newFromMatlab_rejects_non_scalar[of "[2, 3]" world_AB 1 "[1, 2, 3, 4, 5, 6]" None]
    C5_newFromMatlab_rejects_non_scalar[of "[1, 1, 1]" world_AB 1 "[7]" None]
    C5_newFromMatlab_rejects_non_scalar[of "[2, 3]" world_AB 2 "[1, 2, 3, 4, 5, 6]" None]
  by (simp add: Let_def registry_size_def world_AB_fields)

subsection \<open>C7: real values and the round trip\<close>

text \<open>
  C7. \<^verbatim>\<open>toDouble\<close> of an object whose imaginary member is zero is the real 1-by-1 array
  of its real member, with no imaginary data. The object that \<^verbatim>\<open>new myClass(prhs)\<close>
  builds from a real 1-by-1 array with the item \<open>x\<close> (3.0 in the claim) gives that same
  array back through \<^verbatim>\<open>toDouble\<close>.
\<close>

theorem C7_real_round_trip:
  "(valueI (heap w this) = 0 \<longrightarrow>
      toDouble w this = MxDouble [1, 1] [valueR (heap w this)] None
      \<and> mxGetPi (toDouble w this) = None)
   \<and> fst (new_myClass_mx w (MxDouble [1, 1] [x] None)) = Inr (brk w)
   \<and> toDouble (snd (new_myClass_mx w (MxDouble [1, 1] [x] None))) (brk w)
       = MxDouble [1, 1] [x] None"
  using new_mx_scalar[of w x None]
    toDouble_real[of "snd (new_myClass_mx w (MxDouble [1, 1] [x] None))" "brk w"]
    toDouble_real[of w this]
  by simp

theorem C7_witness:
  "valueI (heap world_AB 0) = 0
   \<and> toDouble world_AB 0 = MxDouble [1, 1] [0] None
   \<and> fst (new_myClass_mx world_AB (MxDouble [1, 1] [3] None)) = Inr 2
   \<and> toDouble (snd (new_myClass_mx world_AB (MxDouble [1, 1] [3] None))) 2
       = MxDouble [1, 1] [3] None"
  using C7_real_round_trip[of world_AB 0 3]
  by (simp add: world_AB_fields)

subsection \<open>C6: the number of arguments\<close>

text \<open>
  C6 says that every verb rejects a wrong number of arguments with an error that names
  the verb, before its effect. \<^verbatim>\<open>display\<close> takes one handle; called with two it prints
  the first object and ends without an error.
\<close>

theorem C6_counterexample:
  "mexFunction world_AB 0 [MxChar ''display'', MxUint64 1, MxUint64 0]
     = (Inr None, world_AB\<lparr>console := [PrintfComplex 5 2]\<rparr>)"
  using world_AB_recover(2)
  by (simp add: mexFunction_def one_instance_def cmd_display_def display_def world_AB_fields)

text \<open>
  C6, amended. These calls with a wrong number of arguments fail and leave the world as
  it was, so the verb's effect does not run. With a message that names the verb: \<^verbatim>\<open>new\<close>
  with more than one argument (one output asked for), \<^verbatim>\<open>delete\<close> with a number of
  arguments other than one, \<^verbatim>\<open>isValid\<close> with more than one argument, the first of which
  resolves. With a message that does not name the verb: \<^verbatim>\<open>newFromMatlab\<close> with a number
  of arguments other than one, and \<^verbatim>\<open>isValid\<close>, \<^verbatim>\<open>display\<close>, \<^verbatim>\<open>double\<close> and \<^verbatim>\<open>plus\<close>
  with no argument. \<^verbatim>\<open>display\<close> and \<^verbatim>\<open>double\<close> do not look at further arguments: when
  the first resolves they run as if it were the only one. (Nothing is said about
  \<^verbatim>\<open>plus\<close> with one argument or more than two.)
\<close>

theorem C6_arity_checks:
  "mexFunction w 1 (MxChar ''new'' # a # b # rest)
     = (Inl (MexErrMsgTxt ''New: Too many arguments.''), w)
   \<and> (length args \<noteq> 1 \<longrightarrow>
        mexFunction w nlhs (MxChar ''delete'' # args)
          = (Inl (MexErrMsgTxt ''Delete: Wrong number of arguments.''), w))
   \<and> (recoverObjFromMatlabId w a = Inr p \<longrightarrow>
        mexFunction w nlhs (MxChar ''isValid'' # a # b # rest)
          = (Inl (MexErrMsgTxt ''isValid: Unexpected arguments.''), w))
   \<and> (length args \<noteq> 1 \<longrightarrow>
        mexFunction w nlhs (MxChar ''newFromMatlab'' # args)
          = (Inl (MexErrMsgIdAndTxt ''myClass:invalidNumInputs''
                    ''One input argument required.''), w))
   \<and> (cmd \<in> {''isValid'', ''display'', ''double'', ''plus''} \<longrightarrow>
        mexFunction w nlhs [MxChar cmd] = (Inl (MexErrMsgTxt ''Second input not found.''), w))
   \<and> (recoverObjFromMatlabId w a = Inr p \<longrightarrow>
        mexFunction w nlhs (MxChar ''display'' # a # rest) = (Inr None, display w p)
        \<and> mexFunction w 1 (MxChar ''double'' # a # rest) = (Inr (Some (toDouble w p)), w))"
proof -
  have new: "mexFunction w 1 (MxChar ''new'' # a # b # rest)
      = (Inl (MexErrMsgTxt ''New: Too many arguments.''), w)"
    by (simp add: mexFunction_def cmd_new_def)
  have del: "mexFunction w nlhs (MxChar ''delete'' # args)
      = (Inl (MexErrMsgTxt ''Delete: Wrong number of arguments.''), w)"
    if "length args \<noteq> 1"
    using that by (simp add: mexFunction_def cmd_delete_def)
  have valid: "mexFunction w nlhs (MxChar ''isValid'' # a # b # rest)
      = (Inl (MexErrMsgTxt ''isValid: Unexpected arguments.''), w)"
    if "recoverObjFromMatlabId w a = Inr p"
    using that by (simp add: mexFunction_def one_instance_def cmd_isValid_def)
  have mat: "mexFunction w nlhs (MxChar ''newFromMatlab'' # args)
      = (Inl (MexErrMsgIdAndTxt ''myClass:invalidNumInputs''
                ''One input argument required.''), w)"
    if "length args \<noteq> 1"
    using that by (simp add: mexFunction_def cmd_newFromMatlab_def)
  have none: "mexFunction w nlhs [MxChar cmd]
      = (Inl (MexErrMsgTxt ''Second input not found.''), w)"
    if "cmd \<in> {''isValid'', ''display'', ''double'', ''plus''}"
    using that by (elim insertE emptyE) (simp_all add: mexFunction_def one_instance_def)
  have extra: "mexFunction w nlhs (MxChar ''display'' # a # rest) = (Inr None, display w p)"
    "mexFunction w 1 (MxChar ''double'' # a # rest) = (Inr (Some (toDouble w p)), w)"
    if "recoverObjFromMatlabId w a = Inr p"
    using that
    by (simp_all add: mexFunction_def one_instance_def cmd_display_def cmd_double_def)
  show ?thesis
    by (intro conjI impI) (fact new, (rule del valid mat none extra, assumption)+)
qed

theorem C6_witness:
  "mexFunction world_AB 1 [MxChar ''new'', MxUint64 0, MxUint64 1]
     = (Inl (MexErrMsgTxt ''New: Too many arguments.''), world_AB)
   \<and> mexFunction world_AB 0 [MxChar ''delete'']
       = (Inl (MexErrMsgTxt ''Delete: Wrong number of arguments.''), world_AB)
   \<and> mexFunction world_AB 1 [MxChar ''delete'', MxUint64 0, MxUint64 1]
       = (Inl (MexErrMsgTxt ''Delete: Wrong number of arguments.''), world_AB)
   \<and> recoverObjFromMatlabId world_AB (MxUint64 0) = Inr 0
   \<and> mexFunction world_AB 1 [MxChar ''isValid'', MxUint64 0, MxUint64 1]
       = (Inl (MexErrMsgTxt ''isValid: Unexpected arguments.''), world_AB)
   \<and> mexFunction world_AB 0 [MxChar ''newFromMatlab'']
       = (Inl (MexErrMsgIdAndTxt ''myClass:invalidNumInputs''
                 ''One input argument required.''), world_AB)
   \<and> mexFunction world_AB 1 [MxChar ''plus'']
       = (Inl (MexErrMsgTxt ''Second input not found.''), world_AB)
   \<and> mexFunction world_AB 1 [MxChar ''double'', MxUint64 0, MxUint64 1]
       = (Inr (Some (MxDouble [1, 1] [0] None)), world_AB)"
  using world_AB_recover(1)
    C6_arity_checks[where w = world_AB and a = "MxUint64 0" and b = "MxUint64 1"
      and rest = "[]" and args = "[]" and nlhs = 0 and p = 0 and cmd = "''plus''"]
    C6_arity_checks[where w = world_AB and a = "MxUint64 0" and b = "MxUint64 1"
      and rest = "[]" and args = "[MxUint64 0, MxUint64 1]" and nlhs = 1 and p = 0
      and cmd = "''plus''"]
    C6_arity_checks[where w = world_AB and a = "MxUint64 0" and b = "MxUint64 1"
      and rest = "[MxUint64 1]" and args = "[]" and nlhs = 1 and p = 0
      and cmd = "''plus''"]
    toDouble_real[of world_AB 0]
  by (simp add: world_AB_fields)

end
